theory Spec2Isabelle
  imports Main
begin

section \<open>Go values, panics and errors\<close>

text \<open>
  A Go function either panics or returns. A panic is never caught in
  \<^verbatim>\<open>resource_build_definition.go\<close>, so it ends the whole call: \<open>Panics\<close>.
  A returned \<^verbatim>\<open>error\<close> is an ordinary value: its message, or \<open>None\<close> for \<^verbatim>\<open>nil\<close>.
  A pointer is an \<open>option\<close> (\<open>None\<close> for \<^verbatim>\<open>nil\<close>) and dereferencing it is \<open>deref\<close>.
\<close>

datatype panic = NilDereference | TypeAssertionFailed

datatype 'a exec = Panics panic | Returns 'a

type_synonym go_error = string

fun exec_bind :: "'a exec \<Rightarrow> ('a \<Rightarrow> 'b exec) \<Rightarrow> 'b exec" where
  "exec_bind (Panics p) f = Panics p"
| "exec_bind (Returns x) f = f x"

fun deref :: "'a option \<Rightarrow> 'a exec" where
  "deref None = Panics NilDereference"
| "deref (Some x) = Returns x"

text \<open>
  A value of type \<^verbatim>\<open>interface{}\<close> stored in a \<^verbatim>\<open>map[string]interface{}\<close>. Looking
  up a missing key gives the nil interface, which is \<open>None\<close> of the map here; the
  one-result type assertion \<^verbatim>\<open>v.(string)\<close> panics on everything but a string.
\<close>

datatype go_value = GoNil | GoString string | GoInt int | GoBool bool

type_synonym go_map = "string \<rightharpoonup> go_value"

fun assert_string :: "go_value option \<Rightarrow> string exec" where
  "assert_string (Some (GoString s)) = Returns s"
| "assert_string _ = Panics TypeAssertionFailed"

section \<open>The standard library functions the resource calls\<close>

text \<open>
  \<^verbatim>\<open>strconv.Atoi\<close> and \<^verbatim>\<open>strconv.Itoa\<close> in base 10 on the 64-bit \<^verbatim>\<open>int\<close>: an
  optional sign, then at least one ASCII digit, and a value that fits the type.
\<close>

definition is_digit :: "char \<Rightarrow> bool" where
  "is_digit c = (48 \<le> (of_char c :: nat) \<and> (of_char c :: nat) \<le> 57)"

definition digit_value :: "char \<Rightarrow> nat" where
  "digit_value c = of_char c - 48"

fun parse_digits :: "string \<Rightarrow> nat \<Rightarrow> nat option" where
  "parse_digits [] n = Some n"
| "parse_digits (c # cs) n =
     (if is_digit c then parse_digits cs (n * 10 + digit_value c) else None)"

definition int_fits :: "int \<Rightarrow> bool" where
  "int_fits v = (- (2 ^ 63) \<le> v \<and> v < 2 ^ 63)"

definition Atoi :: "string \<Rightarrow> int option" where
  "Atoi s =
     (case s of
        [] \<Rightarrow> None
      | c # cs \<Rightarrow>
          (let neg = (c = CHR ''-'');
               ds = (if c = CHR ''-'' \<or> c = CHR ''+'' then cs else s)
           in if ds = [] then None
              else (case parse_digits ds 0 of
                      None \<Rightarrow> None
                    | Some n \<Rightarrow>
                        (let v = (if neg then - int n else int n)
                         in if int_fits v then Some v else None))))"

definition digit_char :: "nat \<Rightarrow> char" where
  "digit_char n = char_of (48 + n)"

function digits_of :: "nat \<Rightarrow> string" where
  "digits_of n =
     (if n < 10 then [digit_char n] else digits_of (n div 10) @ [digit_char (n mod 10)])"
  by pat_completeness auto
termination
  by (relation "measure id") auto

definition Itoa :: "int \<Rightarrow> string" where
  "Itoa i = (if i < 0 then CHR ''-'' # digits_of (nat (- i)) else digits_of (nat i))"

text \<open>
  \<^verbatim>\<open>strings.EqualFold\<close> compares under Unicode simple case folding. The resource
  calls it with the constant \<^verbatim>\<open>"github"\<close> only, whose letters fold to nothing but
  their own ASCII upper and lower case, so on this call it is equality of the
  ASCII-lowered byte strings.
\<close>

definition ascii_lower :: "char \<Rightarrow> char" where
  "ascii_lower c =
     (if 65 \<le> (of_char c :: nat) \<and> (of_char c :: nat) \<le> 90
      then char_of ((of_char c :: nat) + 32) else c)"

definition EqualFold :: "string \<Rightarrow> string \<Rightarrow> bool" where
  "EqualFold s t = (map ascii_lower s = map ascii_lower t)"

section \<open>The types of the build SDK that the resource reads and writes\<close>

record yaml_process =
  YamlFilename :: "string option"

text \<open>
  The \<^verbatim>\<open>Process\<close> member has type \<^verbatim>\<open>interface{}\<close>: the nil interface, a
  \<^verbatim>\<open>map[string]interface{}\<close>, a \<^verbatim>\<open>*build.YamlProcess\<close> (which may itself be a nil
  pointer), or a value of any other dynamic type.
\<close>

datatype process =
    NoProcess
  | ProcessMap go_map
  | YamlProcess "yaml_process option"
  | OtherProcess

record build_repository =
  repo_Url :: "string option"
  repo_Id :: "string option"
  repo_Name :: "string option"
  repo_DefaultBranch :: "string option"
  repo_Type :: "string option"
  repo_Properties :: "(string \<rightharpoonup> string) option"

record task_agent_pool_reference =
  pool_Name :: "string option"

record agent_pool_queue =
  queue_Name :: "string option"
  queue_Pool :: "task_agent_pool_reference option"

record variable_group =
  vg_Id :: "int option"

datatype definition_queue_status = Disabled | Enabled | Paused

datatype definition_type = Build | Xaml

datatype definition_quality = Definition | Draft

record build_definition =
  bd_Id :: "int option"
  bd_Name :: "string option"
  bd_Path :: "string option"
  bd_Revision :: "int option"
  bd_Repository :: "build_repository option"
  bd_Process :: process
  bd_Queue :: "agent_pool_queue option"
  bd_QueueStatus :: "definition_queue_status option"
  bd_Type :: "definition_type option"
  bd_Quality :: "definition_quality option"
  bd_VariableGroups :: "variable_group list option"

text \<open>Indexing a \<^verbatim>\<open>map[string]string\<close> gives the empty string for a missing key.\<close>

definition string_index :: "(string \<rightharpoonup> string) \<Rightarrow> string \<Rightarrow> string" where
  "string_index m k = (case m k of None \<Rightarrow> [] | Some v \<Rightarrow> v)"

section \<open>The resource data of the plugin SDK\<close>

text \<open>
  \<^verbatim>\<open>schema.ResourceData\<close> under the schema of \<^verbatim>\<open>resourceBuildDefinition\<close>: the
  resource identifier and one field per attribute, each of the attribute's
  schema type, so that the assertions \<^verbatim>\<open>d.Get("name").(string)\<close> on the top-level
  attributes cannot fail. \<^verbatim>\<open>repository\<close> is the list that \<^verbatim>\<open>Set.List()\<close> gives,
  of \<^verbatim>\<open>map[string]interface{}\<close> entries; \<^verbatim>\<open>variable_groups\<close> is the list of its set.
\<close>

record resource_data =
  rd_Id :: string
  project_id :: string
  revision :: int
  name :: string
  path :: string
  variable_groups :: "int list"
  agent_pool_name :: string
  repository :: "go_map list"

text \<open>
  \<^verbatim>\<open>d.Set\<close> given a pointer to a primitive stores what it points to, and the zero
  value of the attribute for a nil pointer. \<^verbatim>\<open>d.Set\<close> returns an error for a
  value that does not fit the attribute's schema type; the values below have
  that type, so the setters of the two set attributes return nil.
\<close>

definition string_or_zero :: "string option \<Rightarrow> string" where
  "string_or_zero p = (case p of None \<Rightarrow> [] | Some s \<Rightarrow> s)"

definition Set_repository :: "resource_data \<Rightarrow> go_map list \<Rightarrow> go_error option \<times> resource_data" where
  "Set_repository d v = (None, d\<lparr>repository := v\<rparr>)"

text \<open>
  A set attribute is a \<^verbatim>\<open>schema.Set\<close>: a map from the hash key of an element to
  the element. For the integer elements of \<^verbatim>\<open>variable_groups\<close> the key is the
  decimal rendering of the IEEE CRC-32 of the element's decimal rendering
  followed by a semicolon. \<^verbatim>\<open>d.Set\<close> adds the elements of the slice in order, an
  element whose key is already present being dropped, and \<^verbatim>\<open>List()\<close> gives the
  elements in the order of their keys as strings. \<^verbatim>\<open>repository\<close> is only ever
  set to the one entry that \<^verbatim>\<open>flattenRepository\<close> builds.
\<close>

unbundle bit_operations_syntax

definition crc32_shift :: "int \<Rightarrow> int" where
  "crc32_shift c = (if odd c then (c div 2) XOR 3988292384 else c div 2)"

definition crc32_byte :: "int \<Rightarrow> char \<Rightarrow> int" where
  "crc32_byte c b =
     crc32_shift (crc32_shift (crc32_shift (crc32_shift
       (crc32_shift (crc32_shift (crc32_shift (crc32_shift (c XOR of_char b))))))))"

definition ChecksumIEEE :: "string \<Rightarrow> int" where
  "ChecksumIEEE s = foldl crc32_byte 4294967295 s XOR 4294967295"

definition set_hash :: "int \<Rightarrow> string" where
  "set_hash item = Itoa (ChecksumIEEE (Itoa item @ '';''))"

fun string_less :: "string \<Rightarrow> string \<Rightarrow> bool" where
  "string_less [] [] = False"
| "string_less [] (y # ys) = True"
| "string_less (x # xs) [] = False"
| "string_less (x # xs) (y # ys) =
     ((of_char x :: nat) < of_char y \<or> (x = y \<and> string_less xs ys))"

fun set_add :: "(string \<times> int) list \<Rightarrow> string \<times> int \<Rightarrow> (string \<times> int) list" where
  "set_add [] e = [e]"
| "set_add ((k, v) # rest) (code, item) =
     (if code = k then (k, v) # rest
      else if string_less code k then (code, item) # (k, v) # rest
      else (k, v) # set_add rest (code, item))"

definition Set_List :: "int list \<Rightarrow> int list" where
  "Set_List v = map snd (foldl (\<lambda>m item. set_add m (set_hash item, item)) [] v)"

definition Set_variable_groups :: "resource_data \<Rightarrow> int list \<Rightarrow> go_error option \<times> resource_data" where
  "Set_variable_groups d v = (None, d\<lparr>variable_groups := Set_List v\<rparr>)"

section \<open>Flatten: server object to resource data\<close>

definition flattenVariableGroups :: "build_definition option \<Rightarrow> int list exec" where
  "flattenVariableGroups buildDefinition =
     exec_bind (deref buildDefinition) (\<lambda>bd.
       case bd_VariableGroups bd of
         None \<Rightarrow> Returns []
       | Some groups \<Rightarrow>
           foldr (\<lambda>variableGroup rest.
                    exec_bind (deref (vg_Id variableGroup)) (\<lambda>i.
                    exec_bind rest (\<lambda>is. Returns (i # is))))
                 groups (Returns []))"

definition flattenRepository :: "build_definition option \<Rightarrow> go_map list exec" where
  "flattenRepository buildDefiniton =
     exec_bind (deref buildDefiniton) (\<lambda>bd.
     exec_bind (case bd_Process bd of
                  ProcessMap processMap \<Rightarrow> assert_string (processMap ''yamlFilename'')
                | _ \<Rightarrow> Returns []) (\<lambda>fromMap.
     exec_bind (case bd_Process bd of
                  YamlProcess yamlProcess \<Rightarrow>
                    exec_bind (deref yamlProcess) (\<lambda>yp. deref (YamlFilename yp))
                | _ \<Rightarrow> Returns fromMap) (\<lambda>yamlFilePath.
     exec_bind (deref (bd_Repository bd)) (\<lambda>repo.
     exec_bind (deref (repo_Name repo)) (\<lambda>repoName.
     exec_bind (deref (repo_Type repo)) (\<lambda>repoType.
     exec_bind (deref (repo_DefaultBranch repo)) (\<lambda>branch.
     exec_bind (deref (repo_Properties repo)) (\<lambda>props.
       Returns [[''yml_path'' \<mapsto> GoString yamlFilePath,
                 ''repo_name'' \<mapsto> GoString repoName,
                 ''repo_type'' \<mapsto> GoString repoType,
                 ''branch_name'' \<mapsto> GoString branch,
                 ''service_connection_id'' \<mapsto>
                    GoString (string_index props ''connectedServiceId'')]]))))))))"

definition flattenBuildDefinition ::
  "resource_data \<Rightarrow> build_definition option \<Rightarrow> string \<Rightarrow> (go_error option \<times> resource_data) exec" where
  "flattenBuildDefinition d buildDefinition projectID =
     exec_bind (deref buildDefinition) (\<lambda>bd.
     exec_bind (deref (bd_Id bd)) (\<lambda>i.
     let d1 = d\<lparr>rd_Id := Itoa i\<rparr>;
         d2 = d1\<lparr>project_id := projectID\<rparr>;
         d3 = d2\<lparr>name := string_or_zero (bd_Name bd)\<rparr>;
         d4 = d3\<lparr>path := string_or_zero (bd_Path bd)\<rparr>
     in
     exec_bind (deref (bd_Queue bd)) (\<lambda>queue.
     exec_bind (deref (queue_Pool queue)) (\<lambda>pool.
     let d5 = d4\<lparr>agent_pool_name := string_or_zero (pool_Name pool)\<rparr>;
         revision0 = (case bd_Revision bd of None \<Rightarrow> 0 | Some r \<Rightarrow> r);
         d6 = d5\<lparr>revision := revision0\<rparr>
     in
     exec_bind (flattenRepository buildDefinition) (\<lambda>repos.
     case Set_repository d6 repos of
       (Some err, d7) \<Rightarrow> Returns (Some err, d7)
     | (None, d7) \<Rightarrow>
         exec_bind (flattenVariableGroups buildDefinition) (\<lambda>groups.
         case Set_variable_groups d7 groups of
           (Some err, d8) \<Rightarrow> Returns (Some err, d8)
         | (None, d8) \<Rightarrow> Returns (None, d8)))))))"

section \<open>Expand: resource data to server request\<close>

text \<open>
  \<^verbatim>\<open>converter.String\<close> and \<^verbatim>\<open>converter.Int\<close> give a pointer to their argument,
  so each is \<open>Some\<close>. The length check comes after the loop over the
  variable groups, which cannot fail on a list of integers.
\<close>

definition buildVariableGroup :: "int \<Rightarrow> variable_group" where
  "buildVariableGroup i = \<lparr>vg_Id = Some i\<rparr>"

definition expandBuildDefinition ::
  "resource_data \<Rightarrow> (build_definition option \<times> string \<times> go_error option) exec" where
  "expandBuildDefinition d =
     (let projectID = project_id d;
          repositories = repository d;
          variableGroups = map buildVariableGroup (variable_groups d)
      in
      if length repositories \<noteq> 1
      then Returns (None, [],
             Some ''Unexpectedly did not find repository metadata in the resource data'')
      else
        (let repository0 = hd repositories in
         exec_bind (assert_string (repository0 ''repo_name'')) (\<lambda>repoName.
         exec_bind (assert_string (repository0 ''repo_type'')) (\<lambda>repoType.
         let repoURL = (if EqualFold repoType ''github''
                        then ''https://github.com/'' @ repoName @ ''.git'' else []);
             buildDefinitionReference = Atoi (rd_Id d);
             agentPoolName = agent_pool_name d
         in
         exec_bind (assert_string (repository0 ''branch_name'')) (\<lambda>branch.
         exec_bind (assert_string (repository0 ''service_connection_id'')) (\<lambda>connection.
         exec_bind (assert_string (repository0 ''yml_path'')) (\<lambda>ymlPath.
           Returns
             (Some \<lparr>bd_Id = buildDefinitionReference,
                    bd_Name = Some (name d),
                    bd_Path = Some (path d),
                    bd_Revision = Some (revision d),
                    bd_Repository = Some
                      \<lparr>repo_Url = Some repoURL,
                       repo_Id = Some repoName,
                       repo_Name = Some repoName,
                       repo_DefaultBranch = Some branch,
                       repo_Type = Some repoType,
                       repo_Properties = Some [''connectedServiceId'' \<mapsto> connection]\<rparr>,
                    bd_Process = YamlProcess (Some \<lparr>YamlFilename = Some ymlPath\<rparr>),
                    bd_Queue = Some
                      \<lparr>queue_Name = Some agentPoolName,
                       queue_Pool = Some \<lparr>pool_Name = Some agentPoolName\<rparr>\<rparr>,
                    bd_QueueStatus = Some Enabled,
                    bd_Type = Some Build,
                    bd_Quality = Some Definition,
                    bd_VariableGroups = Some variableGroups\<rparr>,
              projectID, None))))))))"

section \<open>The remote client and the four lifecycle operations\<close>

text \<open>
  The build client of the SDK is outside this file: its four operations are
  parameters, each a function of the state \<open>'s\<close> of the remote service that gives
  the Go result pair and the next state. So is the helper
  \<^verbatim>\<open>tfhelper.ParseProjectIDAndResourceID\<close>, which only reads the resource data.
  Every call that reaches the client is appended to \<open>calls\<close>.
\<close>

datatype remote_call =
    CreateDefinitionCall "build_definition option" string
  | GetDefinitionCall string int
  | UpdateDefinitionCall "build_definition option" string "int option"
  | DeleteDefinitionCall string int

record 's clients =
  CreateDefinition ::
    "build_definition option \<Rightarrow> string \<Rightarrow> 's \<Rightarrow> (build_definition option \<times> go_error option) \<times> 's"
  GetDefinition ::
    "string \<Rightarrow> int \<Rightarrow> 's \<Rightarrow> (build_definition option \<times> go_error option) \<times> 's"
  UpdateDefinition ::
    "build_definition option \<Rightarrow> string \<Rightarrow> int option \<Rightarrow> 's
       \<Rightarrow> (build_definition option \<times> go_error option) \<times> 's"
  DeleteDefinition :: "string \<Rightarrow> int \<Rightarrow> 's \<Rightarrow> go_error option \<times> 's"
  ParseProjectIDAndResourceID :: "resource_data \<Rightarrow> string \<times> int \<times> go_error option"

record 's remote =
  server :: 's
  calls :: "remote_call list"

definition issue :: "remote_call \<Rightarrow> ('s \<Rightarrow> 'r \<times> 's) \<Rightarrow> 's remote \<Rightarrow> 'r \<times> 's remote" where
  "issue c f w =
     (case f (server w) of (r, s') \<Rightarrow> (r, \<lparr>server = s', calls = calls w @ [c]\<rparr>))"

definition createBuildDefinition ::
  "'s clients \<Rightarrow> build_definition option \<Rightarrow> string \<Rightarrow> 's remote
     \<Rightarrow> (build_definition option \<times> go_error option) \<times> 's remote" where
  "createBuildDefinition clients buildDefinition project w =
     issue (CreateDefinitionCall buildDefinition project)
           (CreateDefinition clients buildDefinition project) w"

definition resourceBuildDefinitionRead ::
  "'s clients \<Rightarrow> resource_data \<Rightarrow> 's remote
     \<Rightarrow> (go_error option \<times> resource_data \<times> 's remote) exec" where
  "resourceBuildDefinitionRead clients d w =
     (case ParseProjectIDAndResourceID clients d of
        (projectID, buildDefinitionID, Some err) \<Rightarrow> Returns (Some err, d, w)
      | (projectID, buildDefinitionID, None) \<Rightarrow>
          (case issue (GetDefinitionCall projectID buildDefinitionID)
                      (GetDefinition clients projectID buildDefinitionID) w of
             ((buildDefinition, Some err), w') \<Rightarrow> Returns (Some err, d, w')
           | ((buildDefinition, None), w') \<Rightarrow>
               exec_bind (flattenBuildDefinition d buildDefinition projectID) (\<lambda>(ferr, d').
                 case ferr of
                   Some err \<Rightarrow>
                     Returns (Some (''Error flattening Build Definition: '' @ err), d', w')
                 | None \<Rightarrow> Returns (None, d', w'))))"

definition resourceBuildDefinitionCreate ::
  "'s clients \<Rightarrow> resource_data \<Rightarrow> 's remote
     \<Rightarrow> (go_error option \<times> resource_data \<times> 's remote) exec" where
  "resourceBuildDefinitionCreate clients d w =
     exec_bind (expandBuildDefinition d) (\<lambda>(buildDefinition, projectID, xerr).
       case xerr of
         Some err \<Rightarrow>
           Returns (Some (''Error creating resource Build Definition: '' @ err), d, w)
       | None \<Rightarrow>
           (case createBuildDefinition clients buildDefinition projectID w of
              ((createdBuildDefinition, Some err), w') \<Rightarrow>
                Returns (Some (''Error creating resource Build Definition: '' @ err), d, w')
            | ((createdBuildDefinition, None), w') \<Rightarrow>
                exec_bind (flattenBuildDefinition d createdBuildDefinition projectID)
                  (\<lambda>(ferr, d').
                    case ferr of
                      Some err \<Rightarrow>
                        Returns (Some (''Error flattening Build Definition: '' @ err), d', w')
                    | None \<Rightarrow> resourceBuildDefinitionRead clients d' w')))"

definition resourceBuildDefinitionDelete ::
  "'s clients \<Rightarrow> resource_data \<Rightarrow> 's remote
     \<Rightarrow> (go_error option \<times> resource_data \<times> 's remote) exec" where
  "resourceBuildDefinitionDelete clients d w =
     (if rd_Id d = [] then Returns (None, d, w)
      else
        (case ParseProjectIDAndResourceID clients d of
           (projectID, buildDefinitionID, Some err) \<Rightarrow> Returns (Some err, d, w)
         | (projectID, buildDefinitionID, None) \<Rightarrow>
             (case issue (DeleteDefinitionCall projectID buildDefinitionID)
                         (DeleteDefinition clients projectID buildDefinitionID) w of
                (err, w') \<Rightarrow> Returns (err, d, w'))))"

definition resourceBuildDefinitionUpdate ::
  "'s clients \<Rightarrow> resource_data \<Rightarrow> 's remote
     \<Rightarrow> (go_error option \<times> resource_data \<times> 's remote) exec" where
  "resourceBuildDefinitionUpdate clients d w =
     exec_bind (expandBuildDefinition d) (\<lambda>(buildDefinition, projectID, xerr).
       case xerr of
         Some err \<Rightarrow> Returns (Some err, d, w)
       | None \<Rightarrow>
           exec_bind (deref buildDefinition) (\<lambda>bd.
             case issue (UpdateDefinitionCall buildDefinition projectID (bd_Id bd))
                        (UpdateDefinition clients buildDefinition projectID (bd_Id bd)) w of
               ((updatedBuildDefinition, Some err), w') \<Rightarrow> Returns (Some err, d, w')
             | ((updatedBuildDefinition, None), w') \<Rightarrow>
                 exec_bind (flattenBuildDefinition d updatedBuildDefinition projectID)
                   (\<lambda>(ferr, d').
                     case ferr of
                       Some err \<Rightarrow>
                         Returns (Some (''Error flattening Build Definition: '' @ err), d', w')
                     | None \<Rightarrow> Returns (None, d', w'))))"

section \<open>Conditions under which the translators return\<close>

text \<open>
  \<open>is_string v\<close>: the assertion \<^verbatim>\<open>v.(string)\<close> succeeds. \<open>repository_well_typed\<close>:
  the five assertions of Expand on a repository entry succeed, as the schema of
  the nested resource provides. \<open>dereferenceable\<close>: every pointer that Flatten
  dereferences outside the process member is set.
\<close>

fun is_string :: "go_value option \<Rightarrow> bool" where
  "is_string (Some (GoString s)) = True"
| "is_string _ = False"

fun the_string :: "go_value option \<Rightarrow> string" where
  "the_string (Some (GoString s)) = s"
| "the_string _ = []"

definition repository_well_typed :: "go_map \<Rightarrow> bool" where
  "repository_well_typed r =
     (is_string (r ''repo_name'') \<and> is_string (r ''repo_type'') \<and>
      is_string (r ''branch_name'') \<and> is_string (r ''service_connection_id'') \<and>
      is_string (r ''yml_path''))"

definition dereferenceable :: "build_definition \<Rightarrow> bool" where
  "dereferenceable bd =
     (bd_Id bd \<noteq> None \<and>
      (case bd_Queue bd of None \<Rightarrow> False | Some q \<Rightarrow> queue_Pool q \<noteq> None) \<and>
      (case bd_Repository bd of
         None \<Rightarrow> False
       | Some r \<Rightarrow> repo_Name r \<noteq> None \<and> repo_Type r \<noteq> None \<and>
                  repo_DefaultBranch r \<noteq> None \<and> repo_Properties r \<noteq> None) \<and>
      (case bd_VariableGroups bd of
         None \<Rightarrow> True
       | Some groups \<Rightarrow> list_all (\<lambda>g. vg_Id g \<noteq> None) groups))"

text \<open>
  \<open>adds_context cause msg\<close>: the message \<open>msg\<close> is the cause behind a non-empty
  prefix, as \<^verbatim>\<open>fmt.Errorf("...: %+v", err)\<close> builds it.
\<close>

definition adds_context :: "go_error \<Rightarrow> go_error \<Rightarrow> bool" where
  "adds_context cause msg =
     (length cause < length msg \<and> drop (length msg - length cause) msg = cause)"

fun returned_error :: "(go_error option \<times> 'a) exec \<Rightarrow> go_error option" where
  "returned_error (Returns (err, x)) = err"
| "returned_error (Panics p) = None"

definition reports_with_context :: "go_error \<Rightarrow> (go_error option \<times> 'a) exec \<Rightarrow> bool" where
  "reports_with_context cause r =
     (case returned_error r of None \<Rightarrow> False | Some msg \<Rightarrow> adds_context cause msg)"

fun probe_safe :: "process \<Rightarrow> bool" where
  "probe_safe (ProcessMap m) = is_string (m ''yamlFilename'')"
| "probe_safe (YamlProcess None) = False"
| "probe_safe (YamlProcess (Some yp)) = (YamlFilename yp \<noteq> None)"
| "probe_safe _ = True"

section \<open>Sample inputs\<close>

definition sample_repository :: go_map where
  "sample_repository =
     [''yml_path'' \<mapsto> GoString ''ci.yml'',
      ''repo_name'' \<mapsto> GoString ''org/repo'',
      ''repo_type'' \<mapsto> GoString ''GitHub'',
      ''branch_name'' \<mapsto> GoString ''master'',
      ''service_connection_id'' \<mapsto> GoString ''conn-1'']"

definition sample_config :: resource_data where
  "sample_config =
     \<lparr>rd_Id = ''7'', project_id = ''proj'', revision = 3, name = ''nightly'',
      path = ''builds'', variable_groups = [2, 1],
      agent_pool_name = ''Hosted Ubuntu 1604'', repository = [sample_repository]\<rparr>"

definition sample_request :: build_definition where
  "sample_request =
     \<lparr>bd_Id = Some 7,
      bd_Name = Some ''nightly'',
      bd_Path = Some ''builds'',
      bd_Revision = Some 3,
      bd_Repository = Some
        \<lparr>repo_Url = Some ''https://github.com/org/repo.git'',
         repo_Id = Some ''org/repo'',
         repo_Name = Some ''org/repo'',
         repo_DefaultBranch = Some ''master'',
         repo_Type = Some ''GitHub'',
         repo_Properties = Some [''connectedServiceId'' \<mapsto> ''conn-1'']\<rparr>,
      bd_Process = YamlProcess (Some \<lparr>YamlFilename = Some ''ci.yml''\<rparr>),
      bd_Queue = Some
        \<lparr>queue_Name = Some ''Hosted Ubuntu 1604'',
         queue_Pool = Some \<lparr>pool_Name = Some ''Hosted Ubuntu 1604''\<rparr>\<rparr>,
      bd_QueueStatus = Some Enabled,
      bd_Type = Some Build,
      bd_Quality = Some Definition,
      bd_VariableGroups = Some [\<lparr>vg_Id = Some 2\<rparr>, \<lparr>vg_Id = Some 1\<rparr>]\<rparr>"

definition blank_config :: resource_data where
  "blank_config =
     \<lparr>rd_Id = [], project_id = [], revision = 0, name = [], path = [],
      variable_groups = [], agent_pool_name = [], repository = []\<rparr>"

text \<open>
  A client whose every operation fails with the message \<open>boom\<close>, over a remote
  service without state, and an identifier parser that reads the project
  attribute and the decimal resource identifier.
\<close>

definition sample_parse :: "resource_data \<Rightarrow> string \<times> int \<times> go_error option" where
  "sample_parse d =
     (case Atoi (rd_Id d) of
        None \<Rightarrow> (project_id d, 0, Some ''invalid syntax'')
      | Some i \<Rightarrow> (project_id d, i, None))"

definition failing_clients :: "unit clients" where
  "failing_clients =
     \<lparr>CreateDefinition = (\<lambda>b p s. ((None, Some ''boom''), s)),
      GetDefinition = (\<lambda>p i s. ((None, Some ''boom''), s)),
      UpdateDefinition = (\<lambda>b p i s. ((None, Some ''boom''), s)),
      DeleteDefinition = (\<lambda>p i s. (Some ''boom'', s)),
      ParseProjectIDAndResourceID = sample_parse\<rparr>"

definition idle_remote :: "unit remote" where
  "idle_remote = \<lparr>server = (), calls = []\<rparr>"

section \<open>Decimal rendering and parsing agree\<close>

declare digits_of.simps [simp del]

lemma of_char_digit_char: "k < 10 \<Longrightarrow> (of_char (digit_char k) :: nat) = 48 + k"
  by (simp add: digit_char_def)

lemma is_digit_digit_char: "k < 10 \<Longrightarrow> is_digit (digit_char k)"
  by (simp add: is_digit_def of_char_digit_char)

lemma digit_value_digit_char: "k < 10 \<Longrightarrow> digit_value (digit_char k) = k"
  by (simp add: digit_value_def of_char_digit_char)

lemma digit_char_not_sign:
  assumes "k < 10"
  shows "digit_char k \<noteq> CHR ''-''" and "digit_char k \<noteq> CHR ''+''"
proof -
  have "(of_char (digit_char k) :: nat) \<noteq> of_char CHR ''-''"
    using assms by (simp add: of_char_digit_char)
  then show "digit_char k \<noteq> CHR ''-''" by auto
  have "(of_char (digit_char k) :: nat) \<noteq> of_char CHR ''+''"
    using assms by (simp add: of_char_digit_char)
  then show "digit_char k \<noteq> CHR ''+''" by auto
qed

lemma parse_digits_snoc:
  "parse_digits (xs @ [c]) n =
     (case parse_digits xs n of
        None \<Rightarrow> None
      | Some v \<Rightarrow> if is_digit c then Some (v * 10 + digit_value c) else None)"
  by (induction xs arbitrary: n) simp_all

lemma parse_digits_of: "parse_digits (digits_of m) 0 = Some m"
proof (induction m rule: digits_of.induct)
  case (1 n)
  show ?case
  proof (cases "n < 10")
    case True
    then show ?thesis
      by (simp add: digits_of.simps [of n] is_digit_digit_char digit_value_digit_char)
  next
    case False
    with 1 have "parse_digits (digits_of (n div 10)) 0 = Some (n div 10)" by simp
    with False show ?thesis
      by (simp add: digits_of.simps [of n] parse_digits_snoc is_digit_digit_char
            digit_value_digit_char)
  qed
qed

lemma digits_of_head: "\<exists>k cs. k < 10 \<and> digits_of m = digit_char k # cs"
proof (induction m rule: digits_of.induct)
  case (1 n)
  show ?case
  proof (cases "n < 10")
    case True
    then show ?thesis by (auto simp: digits_of.simps [of n])
  next
    case False
    with 1 obtain k cs where "k < 10" "digits_of (n div 10) = digit_char k # cs" by blast
    with False show ?thesis by (auto simp: digits_of.simps [of n])
  qed
qed

lemma Atoi_Itoa: "int_fits i \<Longrightarrow> Atoi (Itoa i) = Some i"
proof (cases "i < 0")
  case True
  assume "int_fits i"
  obtain k cs where k: "k < 10" "digits_of (nat (- i)) = digit_char k # cs"
    using digits_of_head by blast
  have "parse_digits (digit_char k # cs) 0 = Some (nat (- i))"
    using parse_digits_of [of "nat (- i)"] k by simp
  with True \<open>int_fits i\<close> k show ?thesis
    by (simp add: Atoi_def Itoa_def Let_def del: parse_digits.simps)
next
  case False
  assume "int_fits i"
  obtain k cs where k: "k < 10" "digits_of (nat i) = digit_char k # cs"
    using digits_of_head by blast
  have "parse_digits (digit_char k # cs) 0 = Some (nat i)"
    using parse_digits_of [of "nat i"] k by simp
  with False \<open>int_fits i\<close> k show ?thesis
    by (simp add: Atoi_def Itoa_def Let_def digit_char_not_sign del: parse_digits.simps)
qed

lemma Atoi_empty: "Atoi [] = None"
  by (simp add: Atoi_def)

section \<open>When the type assertions and dereferences succeed\<close>

lemma is_string_cases: "is_string v \<Longrightarrow> v = Some (GoString (the_string v))"
  by (cases v rule: is_string.cases) simp_all

lemma assert_string_ok: "is_string v \<Longrightarrow> assert_string v = Returns (the_string v)"
  by (cases v rule: is_string.cases) simp_all

lemma assert_string_fail: "\<not> is_string v \<Longrightarrow> assert_string v = Panics TypeAssertionFailed"
  by (cases v rule: is_string.cases) simp_all

lemma expand_returns:
  assumes "repository d = [r]" and "repository_well_typed r"
  shows "expandBuildDefinition d =
     Returns
       (Some \<lparr>bd_Id = Atoi (rd_Id d),
              bd_Name = Some (name d),
              bd_Path = Some (path d),
              bd_Revision = Some (revision d),
              bd_Repository = Some
                \<lparr>repo_Url = Some (if EqualFold (the_string (r ''repo_type'')) ''github''
                                   then ''https://github.com/'' @ the_string (r ''repo_name'') @ ''.git''
                                   else []),
                 repo_Id = Some (the_string (r ''repo_name'')),
                 repo_Name = Some (the_string (r ''repo_name'')),
                 repo_DefaultBranch = Some (the_string (r ''branch_name'')),
                 repo_Type = Some (the_string (r ''repo_type'')),
                 repo_Properties =
                   Some [''connectedServiceId'' \<mapsto> the_string (r ''service_connection_id'')]\<rparr>,
              bd_Process = YamlProcess (Some \<lparr>YamlFilename = Some (the_string (r ''yml_path''))\<rparr>),
              bd_Queue = Some
                \<lparr>queue_Name = Some (agent_pool_name d),
                 queue_Pool = Some \<lparr>pool_Name = Some (agent_pool_name d)\<rparr>\<rparr>,
              bd_QueueStatus = Some Enabled,
              bd_Type = Some Build,
              bd_Quality = Some Definition,
              bd_VariableGroups = Some (map buildVariableGroup (variable_groups d))\<rparr>,
        project_id d, None)"
  using assms
  by (simp add: expandBuildDefinition_def repository_well_typed_def assert_string_ok Let_def)

lemma expand_rejects:
  "length (repository d) \<noteq> 1 \<Longrightarrow> expandBuildDefinition d =
     Returns (None, [], Some ''Unexpectedly did not find repository metadata in the resource data'')"
  by (simp add: expandBuildDefinition_def Let_def)

lemma flattenVariableGroups_fold:
  "list_all (\<lambda>g. vg_Id g \<noteq> None) gs \<Longrightarrow>
   foldr (\<lambda>variableGroup rest.
            exec_bind (deref (vg_Id variableGroup)) (\<lambda>i.
            exec_bind rest (\<lambda>is. Returns (i # is))))
         gs (Returns []) = Returns (map (\<lambda>g. the (vg_Id g)) gs)"
  by (induction gs) auto

lemma flattenVariableGroups_returns:
  "(case bd_VariableGroups bd of None \<Rightarrow> True | Some gs \<Rightarrow> list_all (\<lambda>g. vg_Id g \<noteq> None) gs) \<Longrightarrow>
   flattenVariableGroups (Some bd) =
     Returns (case bd_VariableGroups bd of None \<Rightarrow> [] | Some gs \<Rightarrow> map (\<lambda>g. the (vg_Id g)) gs)"
  by (simp add: flattenVariableGroups_def flattenVariableGroups_fold split: option.splits)

lemma flattenRepository_same:
  assumes "m ''yamlFilename'' = Some (GoString f)" and "YamlFilename yp = Some f"
  shows "flattenRepository (Some (bd\<lparr>bd_Process := ProcessMap m\<rparr>)) =
         flattenRepository (Some (bd\<lparr>bd_Process := YamlProcess (Some yp)\<rparr>))"
  using assms by (simp add: flattenRepository_def)

lemma flattenRepository_returns:
  assumes "bd_Repository bd = Some repo"
    and "repo_Name repo = Some n" and "repo_Type repo = Some t"
    and "repo_DefaultBranch repo = Some b" and "repo_Properties repo = Some props"
  shows "flattenRepository (Some bd) =
     exec_bind (case bd_Process bd of
                  ProcessMap processMap \<Rightarrow> assert_string (processMap ''yamlFilename'')
                | YamlProcess yamlProcess \<Rightarrow>
                    exec_bind (deref yamlProcess) (\<lambda>yp. deref (YamlFilename yp))
                | _ \<Rightarrow> Returns [])
       (\<lambda>yamlFilePath.
          Returns [[''yml_path'' \<mapsto> GoString yamlFilePath,
                    ''repo_name'' \<mapsto> GoString n,
                    ''repo_type'' \<mapsto> GoString t,
                    ''branch_name'' \<mapsto> GoString b,
                    ''service_connection_id'' \<mapsto>
                       GoString (string_index props ''connectedServiceId'')]])"
  using assms
  by (cases "bd_Process bd")
     (auto simp: flattenRepository_def split: option.splits)

lemma bind_deref_assertion:
  "exec_bind (deref x) f = Panics TypeAssertionFailed \<longleftrightarrow>
     (\<exists>v. x = Some v \<and> f v = Panics TypeAssertionFailed)"
  by (cases x) auto

lemma flattenRepository_type_assertion:
  "flattenRepository (Some bd) = Panics TypeAssertionFailed \<longleftrightarrow>
     (\<exists>m. bd_Process bd = ProcessMap m \<and> \<not> is_string (m ''yamlFilename''))"
proof (cases "bd_Process bd")
  case (ProcessMap m)
  show ?thesis
  proof (cases "is_string (m ''yamlFilename'')")
    case True
    then show ?thesis using ProcessMap
      by (simp add: flattenRepository_def assert_string_ok bind_deref_assertion)
  next
    case False
    then show ?thesis using ProcessMap
      by (simp add: flattenRepository_def assert_string_fail)
  qed
next
  case NoProcess
  then show ?thesis
    by (simp add: flattenRepository_def bind_deref_assertion)
next
  case (YamlProcess yp)
  show ?thesis
  proof (cases yp)
    case None
    then show ?thesis using YamlProcess by (simp add: flattenRepository_def)
  next
    case (Some y)
    then show ?thesis using YamlProcess
      by (cases "YamlFilename y") (simp_all add: flattenRepository_def bind_deref_assertion)
  qed
next
  case OtherProcess
  then show ?thesis
    by (simp add: flattenRepository_def bind_deref_assertion)
qed

lemma flatten_returns:
  assumes "dereferenceable bd" and "flattenRepository (Some bd) = Returns repos"
  shows "flattenBuildDefinition d (Some bd) p =
     Returns (None,
       d\<lparr>rd_Id := Itoa (the (bd_Id bd)),
         project_id := p,
         name := string_or_zero (bd_Name bd),
         path := string_or_zero (bd_Path bd),
         agent_pool_name := string_or_zero (pool_Name (the (queue_Pool (the (bd_Queue bd))))),
         revision := (case bd_Revision bd of None \<Rightarrow> 0 | Some r \<Rightarrow> r),
         repository := repos,
         variable_groups :=
           Set_List (case bd_VariableGroups bd of
                      None \<Rightarrow> [] | Some gs \<Rightarrow> map (\<lambda>g. the (vg_Id g)) gs)\<rparr>)"
proof -
  from assms(1) obtain i q pl where
    "bd_Id bd = Some i" "bd_Queue bd = Some q" "queue_Pool q = Some pl"
    by (auto simp: dereferenceable_def split: option.splits)
  moreover from assms(1) have
    "flattenVariableGroups (Some bd) =
       Returns (case bd_VariableGroups bd of None \<Rightarrow> [] | Some gs \<Rightarrow> map (\<lambda>g. the (vg_Id g)) gs)"
    by (intro flattenVariableGroups_returns) (simp add: dereferenceable_def)
  ultimately show ?thesis
    using assms(2)
    by (simp add: flattenBuildDefinition_def Set_repository_def Set_variable_groups_def Let_def)
qed

lemma flatten_panics:
  assumes "flattenRepository (Some bd) = Panics q"
  shows "\<exists>q'. flattenBuildDefinition d (Some bd) p = Panics q'"
  using assms
  by (cases "bd_Id bd"; cases "bd_Queue bd"; cases "queue_Pool (the (bd_Queue bd))")
     (simp_all add: flattenBuildDefinition_def Let_def)

lemma flatten_panics_exact:
  assumes "flattenRepository (Some bd) = Panics q" and "dereferenceable bd"
  shows "flattenBuildDefinition d (Some bd) p = Panics q"
proof -
  from assms(2) obtain i qu pl where
    "bd_Id bd = Some i" "bd_Queue bd = Some qu" "queue_Pool qu = Some pl"
    by (auto simp: dereferenceable_def split: option.splits)
  then show ?thesis using assms(1)
    by (simp add: flattenBuildDefinition_def Let_def)
qed

section \<open>The sample inputs evaluated\<close>

lemma sample_repository_well_typed: "repository_well_typed sample_repository"
  by (simp add: repository_well_typed_def sample_repository_def)

lemma Atoi_seven: "Atoi ''7'' = Some 7"
  by (simp add: Atoi_def is_digit_def digit_value_def int_fits_def)

lemma EqualFold_GitHub: "EqualFold ''GitHub'' ''github''"
  by (simp add: EqualFold_def ascii_lower_def char_of_eq_iff)

lemma expand_sample_config:
  "expandBuildDefinition sample_config = Returns (Some sample_request, ''proj'', None)"
proof -
  have "repository sample_config = [sample_repository]"
    by (simp add: sample_config_def)
  from expand_returns [OF this sample_repository_well_typed] show ?thesis
    by (simp add: sample_config_def sample_request_def sample_repository_def
          Atoi_seven EqualFold_GitHub buildVariableGroup_def)
qed

lemma dereferenceable_sample_request: "dereferenceable sample_request"
  by (simp add: dereferenceable_def sample_request_def)

lemma probe_safe_returns:
  assumes "dereferenceable bd" and "probe_safe (bd_Process bd)"
  shows "\<exists>r. flattenRepository (Some bd) = Returns [r]"
proof -
  from assms(1) obtain repo n t b props where
    "bd_Repository bd = Some repo" "repo_Name repo = Some n" "repo_Type repo = Some t"
    "repo_DefaultBranch repo = Some b" "repo_Properties repo = Some props"
    by (auto simp: dereferenceable_def split: option.splits)
  note eq = flattenRepository_returns [OF this]
  from assms(2) show ?thesis
    by (cases "bd_Process bd" rule: probe_safe.cases)
       (auto simp: eq assert_string_ok)
qed

lemma flattenVariableGroups_process:
  "flattenVariableGroups (Some (bd\<lparr>bd_Process := p\<rparr>)) = flattenVariableGroups (Some bd)"
  by (simp add: flattenVariableGroups_def)

lemma flattenRepository_revision:
  "flattenRepository (Some (bd\<lparr>bd_Revision := rv\<rparr>)) = flattenRepository (Some bd)"
  by (simp add: flattenRepository_def)

lemma flattenVariableGroups_revision:
  "flattenVariableGroups (Some (bd\<lparr>bd_Revision := rv\<rparr>)) = flattenVariableGroups (Some bd)"
  by (simp add: flattenVariableGroups_def)

lemma flatten_ignores_revision:
  "flattenBuildDefinition d (Some (bd\<lparr>bd_Revision := rv\<rparr>)) projectID =
     (case flattenBuildDefinition d (Some bd) projectID of
        Panics q \<Rightarrow> Panics q
      | Returns (err, d') \<Rightarrow>
          Returns (err, d'\<lparr>revision := (case rv of None \<Rightarrow> 0 | Some r \<Rightarrow> r)\<rparr>))"
proof (cases "bd_Id bd")
  case None
  then show ?thesis by (simp add: flattenBuildDefinition_def)
next
  case i: (Some i)
  show ?thesis
  proof (cases "bd_Queue bd")
    case None
    with i show ?thesis by (simp add: flattenBuildDefinition_def)
  next
    case q: (Some q)
    show ?thesis
    proof (cases "queue_Pool q")
      case None
      with i q show ?thesis by (simp add: flattenBuildDefinition_def)
    next
      case pl: (Some pl)
      show ?thesis
      proof (cases "flattenRepository (Some bd)")
        case (Panics x)
        with i q pl show ?thesis
          by (simp add: flattenBuildDefinition_def flattenRepository_revision)
      next
        case r: (Returns repos)
        show ?thesis
        proof (cases "flattenVariableGroups (Some bd)")
          case (Panics x)
          with i q pl r show ?thesis
            by (simp add: flattenBuildDefinition_def flattenRepository_revision
                  flattenVariableGroups_revision Set_repository_def)
        next
          case (Returns groups)
          with i q pl r show ?thesis
            by (simp add: flattenBuildDefinition_def flattenRepository_revision
                  flattenVariableGroups_revision Set_repository_def Set_variable_groups_def)
        qed
      qed
    qed
  qed
qed

lemma ascii_lower_eq:
  assumes "97 \<le> (of_char l :: nat)" and "(of_char l :: nat) \<le> 122"
    and "(of_char u :: nat) + 32 = of_char l"
  shows "ascii_lower c = l \<longleftrightarrow> c = l \<or> c = u"
proof (cases "65 \<le> (of_char c :: nat) \<and> (of_char c :: nat) \<le> 90")
  case True
  then have "ascii_lower c = char_of ((of_char c :: nat) + 32)"
    by (simp add: ascii_lower_def)
  moreover have "char_of ((of_char c :: nat) + 32) = l \<longleftrightarrow> (of_char c :: nat) + 32 = of_char l"
    using True by (simp add: char_of_eq_iff take_bit_eq_mod)
  moreover have "(of_char c :: nat) + 32 = of_char l \<longleftrightarrow> c = u"
  proof -
    have "(of_char c :: nat) + 32 = of_char l \<longleftrightarrow> (of_char c :: nat) = of_char u"
      using assms(3) by linarith
    then show ?thesis by (simp only: of_char_eq_iff)
  qed
  moreover have "c \<noteq> l"
    using True assms(1) by auto
  ultimately show ?thesis by simp
next
  case False
  then have "ascii_lower c = c" by (auto simp: ascii_lower_def)
  moreover have "c \<noteq> u"
    using False assms by auto
  ultimately show ?thesis by simp
qed

lemma EqualFold_github:
  "EqualFold t ''github'' \<longleftrightarrow>
     (\<exists>c1 c2 c3 c4 c5 c6. t = [c1, c2, c3, c4, c5, c6] \<and>
        (c1 = CHR ''g'' \<or> c1 = CHR ''G'') \<and> (c2 = CHR ''i'' \<or> c2 = CHR ''I'') \<and>
        (c3 = CHR ''t'' \<or> c3 = CHR ''T'') \<and> (c4 = CHR ''h'' \<or> c4 = CHR ''H'') \<and>
        (c5 = CHR ''u'' \<or> c5 = CHR ''U'') \<and> (c6 = CHR ''b'' \<or> c6 = CHR ''B''))"
proof -
  have low: "map ascii_lower ''github'' = ''github''"
    by (simp add: ascii_lower_def)
  have g: "\<And>c. ascii_lower c = CHR ''g'' \<longleftrightarrow> c = CHR ''g'' \<or> c = CHR ''G''"
    by (rule ascii_lower_eq) simp_all
  have i: "\<And>c. ascii_lower c = CHR ''i'' \<longleftrightarrow> c = CHR ''i'' \<or> c = CHR ''I''"
    by (rule ascii_lower_eq) simp_all
  have t: "\<And>c. ascii_lower c = CHR ''t'' \<longleftrightarrow> c = CHR ''t'' \<or> c = CHR ''T''"
    by (rule ascii_lower_eq) simp_all
  have h: "\<And>c. ascii_lower c = CHR ''h'' \<longleftrightarrow> c = CHR ''h'' \<or> c = CHR ''H''"
    by (rule ascii_lower_eq) simp_all
  have u: "\<And>c. ascii_lower c = CHR ''u'' \<longleftrightarrow> c = CHR ''u'' \<or> c = CHR ''U''"
    by (rule ascii_lower_eq) simp_all
  have b: "\<And>c. ascii_lower c = CHR ''b'' \<longleftrightarrow> c = CHR ''b'' \<or> c = CHR ''B''"
    by (rule ascii_lower_eq) simp_all
  have "EqualFold t ''github'' \<longleftrightarrow> map ascii_lower t = ''github''"
    unfolding EqualFold_def low ..
  also have "\<dots> \<longleftrightarrow>
     (\<exists>c1 c2 c3 c4 c5 c6. t = [c1, c2, c3, c4, c5, c6] \<and>
        ascii_lower c1 = CHR ''g'' \<and> ascii_lower c2 = CHR ''i'' \<and>
        ascii_lower c3 = CHR ''t'' \<and> ascii_lower c4 = CHR ''h'' \<and>
        ascii_lower c5 = CHR ''u'' \<and> ascii_lower c6 = CHR ''b'')"
    by (auto simp: map_eq_Cons_conv)
  finally show ?thesis
    by (simp only: g i t h u b)
qed

lemma sample_parse_sample_config: "sample_parse sample_config = (''proj'', 7, None)"
  by (simp add: sample_parse_def sample_config_def Atoi_seven)

lemma read_fails_with_boom:
  "resourceBuildDefinitionRead failing_clients sample_config idle_remote =
     Returns (Some ''boom'', sample_config, \<lparr>server = (), calls = [GetDefinitionCall ''proj'' 7]\<rparr>)"
  by (simp add: resourceBuildDefinitionRead_def failing_clients_def idle_remote_def issue_def
        sample_parse_sample_config)

lemma Itoa_small: "Itoa 1 = ''1''" "Itoa 2 = ''2''" "Itoa 3 = ''3''" "Itoa 7 = ''7''"
  by (simp_all add: Itoa_def digits_of.simps digit_char_def char_of_eq_iff)

lemma ChecksumIEEE_samples:
  "ChecksumIEEE ''1;'' = 915405929" "ChecksumIEEE ''2;'' = 497201066"
  "ChecksumIEEE ''3;'' = 79273707"
  by (simp_all add: ChecksumIEEE_def crc32_byte_def crc32_shift_def)

lemma Itoa_keys:
  "Itoa 915405929 = ''915405929''" "Itoa 497201066 = ''497201066''"
  "Itoa 79273707 = ''79273707''"
  by (simp_all add: Itoa_def digits_of.simps digit_char_def char_of_eq_iff)

lemma set_hash_samples:
  "set_hash 1 = ''915405929''" "set_hash 2 = ''497201066''" "set_hash 3 = ''79273707''"
  unfolding set_hash_def Itoa_small append.simps ChecksumIEEE_samples Itoa_keys
  by (rule refl)+

lemma Set_List_one_two: "Set_List [1, 2] = [2, 1]"
  unfolding Set_List_def foldl.simps set_hash_samples
  by simp

lemma Set_List_two_one: "Set_List [2, 1] = [2, 1]"
  unfolding Set_List_def foldl.simps set_hash_samples
  by simp

lemma Set_List_repeated: "Set_List [1, 2, 3, 2] = [2, 3, 1]"
  unfolding Set_List_def foldl.simps set_hash_samples
  by simp

lemma flattenRepository_unsafe:
  assumes "\<not> probe_safe (bd_Process bd)"
  shows "\<exists>q. flattenRepository (Some bd) = Panics q"
proof (cases "bd_Process bd" rule: probe_safe.cases)
  case (1 m)
  with assms show ?thesis
    by (simp add: flattenRepository_def assert_string_fail)
next
  case 2
  then show ?thesis by (simp add: flattenRepository_def)
next
  case (3 yp)
  with assms show ?thesis by (simp add: flattenRepository_def)
next
  case "4_1"
  with assms show ?thesis by simp
next
  case "4_2"
  with assms show ?thesis by simp
qed

lemma flatten_with_filename:
  assumes "dereferenceable bd"
    and "(case bd_Process bd of
            ProcessMap processMap \<Rightarrow> assert_string (processMap ''yamlFilename'')
          | YamlProcess yamlProcess \<Rightarrow>
              exec_bind (deref yamlProcess) (\<lambda>yp. deref (YamlFilename yp))
          | _ \<Rightarrow> Returns []) = Returns f"
  shows "\<exists>d' r. flattenBuildDefinition d (Some bd) projectID = Returns (None, d') \<and>
               repository d' = [r] \<and> r ''yml_path'' = Some (GoString f)"
proof -
  from assms(1) obtain repo n t b props where
    "bd_Repository bd = Some repo" "repo_Name repo = Some n" "repo_Type repo = Some t"
    "repo_DefaultBranch repo = Some b" "repo_Properties repo = Some props"
    by (auto simp: dereferenceable_def split: option.splits)
  from flattenRepository_returns [OF this] assms(2)
  obtain r where r: "flattenRepository (Some bd) = Returns [r]"
    "r ''yml_path'' = Some (GoString f)"
    by simp
  from flatten_returns [OF assms(1) r(1), of d projectID] r(2) show ?thesis by simp
qed

lemma flatten_with_panic:
  assumes "dereferenceable bd"
    and "(case bd_Process bd of
            ProcessMap processMap \<Rightarrow> assert_string (processMap ''yamlFilename'')
          | YamlProcess yamlProcess \<Rightarrow>
              exec_bind (deref yamlProcess) (\<lambda>yp. deref (YamlFilename yp))
          | _ \<Rightarrow> Returns []) = Panics q"
  shows "flattenBuildDefinition d (Some bd) projectID = Panics q"
proof -
  from assms(1) obtain repo n t b props where
    "bd_Repository bd = Some repo" "repo_Name repo = Some n" "repo_Type repo = Some t"
    "repo_DefaultBranch repo = Some b" "repo_Properties repo = Some props"
    by (auto simp: dereferenceable_def split: option.splits)
  from flattenRepository_returns [OF this] assms(2)
  have "flattenRepository (Some bd) = Panics q" by simp
  from flatten_panics_exact [OF this assms(1)] show ?thesis .
qed

section \<open>Expand and Flatten\<close>

text \<open>
  Claim C1. For a config with one repository entry whose five fields are
  strings, Expand returns a request, and Flatten applied to that request once the
  server has given it an identifier \<open>i\<close> returns without error a resource data
  with the config's \<open>name\<close> and \<open>path\<close> and one repository entry with the config's
  \<open>repo_name\<close>, \<open>repo_type\<close>, \<open>branch_name\<close>, \<open>yml_path\<close> and
  \<open>service_connection_id\<close>, whatever resource data \<open>d0\<close> Flatten writes into.
\<close>
theorem expand_flatten_roundtrip:
  assumes "repository d = [r]" and "repository_well_typed r"
  shows "\<exists>bd d' r'.
     expandBuildDefinition d = Returns (Some bd, project_id d, None) \<and>
     flattenBuildDefinition d0 (Some (bd\<lparr>bd_Id := Some i\<rparr>)) (project_id d) = Returns (None, d') \<and>
     name d' = name d \<and> path d' = path d \<and> repository d' = [r'] \<and>
     r' ''repo_name'' = r ''repo_name'' \<and> r' ''repo_type'' = r ''repo_type'' \<and>
     r' ''branch_name'' = r ''branch_name'' \<and> r' ''yml_path'' = r ''yml_path'' \<and>
     r' ''service_connection_id'' = r ''service_connection_id''"
proof -
  let ?r' = "[''yml_path'' \<mapsto> GoString (the_string (r ''yml_path'')),
              ''repo_name'' \<mapsto> GoString (the_string (r ''repo_name'')),
              ''repo_type'' \<mapsto> GoString (the_string (r ''repo_type'')),
              ''branch_name'' \<mapsto> GoString (the_string (r ''branch_name'')),
              ''service_connection_id'' \<mapsto>
                 GoString (the_string (r ''service_connection_id''))]"
  note ex = expand_returns [OF assms]
  obtain bd where bd: "expandBuildDefinition d = Returns (Some bd, project_id d, None)"
    using ex by blast
  let ?bd = "bd\<lparr>bd_Id := Some i\<rparr>"
  have fields: "bd_Name bd = Some (name d)" "bd_Path bd = Some (path d)"
    using ex bd by auto
  have deref: "dereferenceable ?bd"
    using ex bd by (auto simp: dereferenceable_def list_all_iff buildVariableGroup_def)
  have repo: "flattenRepository (Some ?bd) = Returns [?r']"
    using ex bd by (auto simp: flattenRepository_def string_index_def)
  from flatten_returns [OF deref repo, of d0 "project_id d"]
  obtain d' where d': "flattenBuildDefinition d0 (Some ?bd) (project_id d) = Returns (None, d')"
    "name d' = name d" "path d' = path d" "repository d' = [?r']"
    using fields by (auto simp: string_or_zero_def)
  from assms(2) have
    "?r' ''repo_name'' = r ''repo_name''" "?r' ''repo_type'' = r ''repo_type''"
    "?r' ''branch_name'' = r ''branch_name''" "?r' ''yml_path'' = r ''yml_path''"
    "?r' ''service_connection_id'' = r ''service_connection_id''"
    by (simp_all add: repository_well_typed_def is_string_cases [symmetric])
  with bd d' show ?thesis by blast
qed

theorem expand_flatten_roundtrip_witness:
  "repository sample_config = [sample_repository] \<and>
   repository_well_typed sample_repository \<and>
   (\<exists>bd d' r'.
     expandBuildDefinition sample_config = Returns (Some bd, project_id sample_config, None) \<and>
     flattenBuildDefinition blank_config (Some (bd\<lparr>bd_Id := Some 12\<rparr>))
       (project_id sample_config) = Returns (None, d') \<and>
     name d' = name sample_config \<and> path d' = path sample_config \<and>
     repository d' = [r'] \<and>
     r' ''repo_name'' = sample_repository ''repo_name'' \<and>
     r' ''repo_type'' = sample_repository ''repo_type'' \<and>
     r' ''branch_name'' = sample_repository ''branch_name'' \<and>
     r' ''yml_path'' = sample_repository ''yml_path'' \<and>
     r' ''service_connection_id'' = sample_repository ''service_connection_id'')"
proof -
  have h1: "repository sample_config = [sample_repository]"
    by (simp add: sample_config_def)
  have h2: "repository_well_typed sample_repository"
    by (simp add: repository_well_typed_def sample_repository_def)
  from expand_flatten_roundtrip [OF h1 h2, of blank_config 12] h1 h2
  show ?thesis by simp
qed

text \<open>
  Claim C2. The URL of the request's repository is
  \<open>https://github.com/<repo_name>.git\<close> when \<open>repo_type\<close> is \<open>github\<close> up to the
  case of its ASCII letters, and the empty string for every other \<open>repo_type\<close>.
\<close>
theorem expand_repository_url:
  assumes "repository d = [r]" and "repository_well_typed r"
    and "r ''repo_name'' = Some (GoString repoName)"
    and "r ''repo_type'' = Some (GoString repoType)"
  shows "\<exists>bd repo.
     expandBuildDefinition d = Returns (Some bd, project_id d, None) \<and>
     bd_Repository bd = Some repo \<and>
     repo_Url repo =
       Some (if map ascii_lower repoType = ''github''
             then ''https://github.com/'' @ repoName @ ''.git'' else [])"
proof -
  have "map ascii_lower ''github'' = ''github''"
    by (simp add: ascii_lower_def)
  then have "EqualFold repoType ''github'' \<longleftrightarrow> map ascii_lower repoType = ''github''"
    unfolding EqualFold_def by (simp only:)
  with expand_returns [OF assms(1,2)] assms(3,4) show ?thesis
    by simp
qed

theorem expand_repository_url_witness:
  "repository sample_config = [sample_repository] \<and>
   repository_well_typed sample_repository \<and>
   sample_repository ''repo_name'' = Some (GoString ''org/repo'') \<and>
   sample_repository ''repo_type'' = Some (GoString ''GitHub'') \<and>
   (\<exists>bd repo.
     expandBuildDefinition sample_config = Returns (Some bd, ''proj'', None) \<and>
     bd_Repository bd = Some repo \<and>
     repo_Url repo = Some ''https://github.com/org/repo.git'')"
proof -
  have h1: "repository sample_config = [sample_repository]"
    by (simp add: sample_config_def)
  have h2: "repository_well_typed sample_repository"
    by (simp add: repository_well_typed_def sample_repository_def)
  have h3: "sample_repository ''repo_name'' = Some (GoString ''org/repo'')"
    by (simp add: sample_repository_def)
  have h4: "sample_repository ''repo_type'' = Some (GoString ''GitHub'')"
    by (simp add: sample_repository_def)
  have lower: "map ascii_lower ''GitHub'' = ''github''"
    by (simp add: ascii_lower_def char_of_eq_iff)
  have proj: "project_id sample_config = ''proj''"
    by (simp add: sample_config_def)
  from expand_repository_url [OF h1 h2 h3 h4, unfolded lower] h1 h2 h3 h4 show ?thesis
    by (simp add: proj)
qed

text \<open>
  Claim C7. The request's \<open>Id\<close> is what \<^verbatim>\<open>strconv.Atoi\<close> makes of the resource
  identifier: unset when the identifier is empty (or does not parse), and \<open>n\<close>
  when the identifier is the decimal rendering of \<open>n\<close> that Flatten stored.
\<close>
theorem expand_carries_parsed_id:
  assumes "repository d = [r]" and "repository_well_typed r"
  shows "\<exists>bd.
     expandBuildDefinition d = Returns (Some bd, project_id d, None) \<and>
     bd_Id bd = Atoi (rd_Id d) \<and>
     (rd_Id d = [] \<longrightarrow> bd_Id bd = None) \<and>
     (\<forall>n. int_fits n \<and> rd_Id d = Itoa n \<longrightarrow> bd_Id bd = Some n)"
  using expand_returns [OF assms] by (auto simp: Atoi_empty Atoi_Itoa)

theorem expand_carries_parsed_id_witness:
  "repository sample_config = [sample_repository] \<and>
   repository_well_typed sample_repository \<and>
   rd_Id sample_config = Itoa 7 \<and> int_fits 7 \<and>
   repository (sample_config\<lparr>rd_Id := []\<rparr>) = [sample_repository] \<and>
   (\<exists>bd. expandBuildDefinition sample_config = Returns (Some bd, ''proj'', None) \<and>
         bd_Id bd = Some 7) \<and>
   (\<exists>bd. expandBuildDefinition (sample_config\<lparr>rd_Id := []\<rparr>) = Returns (Some bd, ''proj'', None) \<and>
         bd_Id bd = None)"
proof -
  have h1: "repository sample_config = [sample_repository]"
    by (simp add: sample_config_def)
  have h1': "repository (sample_config\<lparr>rd_Id := []\<rparr>) = [sample_repository]"
    by (simp add: sample_config_def)
  have h2: "repository_well_typed sample_repository"
    by (simp add: repository_well_typed_def sample_repository_def)
  have "Itoa 7 = ''7''"
    by (simp add: Itoa_def digits_of.simps digit_char_def char_of_eq_iff)
  then have h3: "rd_Id sample_config = Itoa 7"
    by (simp add: sample_config_def)
  have h4: "int_fits 7"
    by (simp add: int_fits_def)
  have proj: "project_id sample_config = ''proj''"
    by (simp add: sample_config_def)
  from expand_carries_parsed_id [OF h1 h2] h3 h4 proj
  have a: "\<exists>bd. expandBuildDefinition sample_config = Returns (Some bd, ''proj'', None) \<and>
         bd_Id bd = Some 7"
    by auto
  from expand_carries_parsed_id [OF h1' h2] proj
  have b: "\<exists>bd. expandBuildDefinition (sample_config\<lparr>rd_Id := []\<rparr>) = Returns (Some bd, ''proj'', None) \<and>
         bd_Id bd = None"
    by auto
  from a b h1 h1' h2 h3 h4 show ?thesis by blast
qed

text \<open>
  Claim C9. The request always has queue status \<open>Enabled\<close>, type \<open>Build\<close> and
  quality \<open>Definition\<close>; the queue's name and its pool's name are both the
  config's \<open>agent_pool_name\<close>; the repository's \<open>Id\<close> and \<open>Name\<close> are both the
  config's \<open>repo_name\<close>.
\<close>
theorem expand_fixed_fields:
  assumes "repository d = [r]" and "repository_well_typed r"
    and "r ''repo_name'' = Some (GoString repoName)"
  shows "\<exists>bd queue pool repo.
     expandBuildDefinition d = Returns (Some bd, project_id d, None) \<and>
     bd_QueueStatus bd = Some Enabled \<and> bd_Type bd = Some Build \<and>
     bd_Quality bd = Some Definition \<and>
     bd_Queue bd = Some queue \<and> queue_Name queue = Some (agent_pool_name d) \<and>
     queue_Pool queue = Some pool \<and> pool_Name pool = Some (agent_pool_name d) \<and>
     bd_Repository bd = Some repo \<and>
     repo_Id repo = Some repoName \<and> repo_Name repo = Some repoName"
  using expand_returns [OF assms(1,2)] assms(3) by simp

theorem expand_fixed_fields_witness:
  "repository sample_config = [sample_repository] \<and>
   repository_well_typed sample_repository \<and>
   sample_repository ''repo_name'' = Some (GoString ''org/repo'') \<and>
   (\<exists>bd queue pool repo.
     expandBuildDefinition sample_config = Returns (Some bd, ''proj'', None) \<and>
     bd_QueueStatus bd = Some Enabled \<and> bd_Type bd = Some Build \<and>
     bd_Quality bd = Some Definition \<and>
     bd_Queue bd = Some queue \<and> queue_Name queue = Some ''Hosted Ubuntu 1604'' \<and>
     queue_Pool queue = Some pool \<and> pool_Name pool = Some ''Hosted Ubuntu 1604'' \<and>
     bd_Repository bd = Some repo \<and>
     repo_Id repo = Some ''org/repo'' \<and> repo_Name repo = Some ''org/repo'')"
proof -
  have h1: "repository sample_config = [sample_repository]"
    by (simp add: sample_config_def)
  have h2: "repository_well_typed sample_repository"
    by (simp add: repository_well_typed_def sample_repository_def)
  have h3: "sample_repository ''repo_name'' = Some (GoString ''org/repo'')"
    by (simp add: sample_repository_def)
  have proj: "project_id sample_config = ''proj''"
    "agent_pool_name sample_config = ''Hosted Ubuntu 1604''"
    by (simp_all add: sample_config_def)
  from expand_fixed_fields [OF h1 h2 h3] h1 h2 h3 show ?thesis
    by (simp add: proj)
qed

text \<open>
  Claim C4. When the repository attribute has no entry or more than one, Expand
  returns no build definition and the error
  \<open>Unexpectedly did not find repository metadata in the resource data\<close>;
  Create and Update then return that error (Create behind its prefix) with the
  resource data and the remote service untouched and no call issued.
\<close>
theorem expand_rejects_repository_count:
  assumes "length (repository d) \<noteq> 1"
  shows "expandBuildDefinition d =
           Returns (None, [],
             Some ''Unexpectedly did not find repository metadata in the resource data'') \<and>
         resourceBuildDefinitionCreate clients d w =
           Returns (Some (''Error creating resource Build Definition: '' @
                          ''Unexpectedly did not find repository metadata in the resource data''),
                    d, w) \<and>
         resourceBuildDefinitionUpdate clients d w =
           Returns (Some ''Unexpectedly did not find repository metadata in the resource data'',
                    d, w)"
  using expand_rejects [OF assms]
  by (simp add: resourceBuildDefinitionCreate_def resourceBuildDefinitionUpdate_def)

theorem expand_rejects_repository_count_witness:
  "length (repository blank_config) \<noteq> 1 \<and>
   length (repository (sample_config\<lparr>repository := [sample_repository, Map.empty]\<rparr>)) \<noteq> 1 \<and>
   expandBuildDefinition blank_config =
     Returns (None, [],
       Some ''Unexpectedly did not find repository metadata in the resource data'') \<and>
   expandBuildDefinition (sample_config\<lparr>repository := [sample_repository, Map.empty]\<rparr>) =
     Returns (None, [],
       Some ''Unexpectedly did not find repository metadata in the resource data'') \<and>
   resourceBuildDefinitionUpdate failing_clients blank_config idle_remote =
     Returns (Some ''Unexpectedly did not find repository metadata in the resource data'',
              blank_config, idle_remote)"
proof -
  have h0: "length (repository blank_config) \<noteq> 1"
    by (simp add: blank_config_def)
  have h2: "length (repository (sample_config\<lparr>repository := [sample_repository, Map.empty]\<rparr>)) \<noteq> 1"
    by simp
  from expand_rejects_repository_count [OF h0, of failing_clients idle_remote]
       expand_rejects_repository_count [OF h2, of failing_clients idle_remote] h0 h2
  show ?thesis by simp
qed

text \<open>
  Claim C10, as stated, fails in its closing clause, in both directions: a
  typed YAML process that is a nil pointer makes Flatten panic although every
  other pointer is set, and a server object with no process at all is flattened
  without a panic, to an empty \<open>yml_path\<close>.
\<close>
theorem flatten_typed_nil_and_absent_process:
  "dereferenceable sample_request \<and>
   flattenBuildDefinition blank_config
     (Some (sample_request\<lparr>bd_Process := YamlProcess None\<rparr>)) ''proj'' =
     Panics NilDereference \<and>
   flattenBuildDefinition blank_config
     (Some (sample_request\<lparr>bd_Process := NoProcess\<rparr>)) ''proj'' =
     Returns (None,
       \<lparr>rd_Id = ''7'', project_id = ''proj'', revision = 3, name = ''nightly'',
        path = ''builds'', variable_groups = [2, 1],
        agent_pool_name = ''Hosted Ubuntu 1604'',
        repository =
          [[''yml_path'' \<mapsto> GoString [],
            ''repo_name'' \<mapsto> GoString ''org/repo'',
            ''repo_type'' \<mapsto> GoString ''GitHub'',
            ''branch_name'' \<mapsto> GoString ''master'',
            ''service_connection_id'' \<mapsto> GoString ''conn-1'']]\<rparr>)"
  by (simp add: dereferenceable_def flattenBuildDefinition_def flattenRepository_def
        flattenVariableGroups_def Set_repository_def Set_variable_groups_def
        sample_request_def blank_config_def string_or_zero_def string_index_def
        Itoa_small Set_List_two_one)

text \<open>
  Claim C10, amended. Flatten is not total on process shapes. The type assertion
  in \<^verbatim>\<open>flattenRepository\<close> panics exactly for a map in which \<open>yamlFilename\<close> is
  missing or not a string, and every process that is not \<open>probe_safe\<close> makes
  Flatten panic. With the other pointers set: such a map panics with the failed
  type assertion; a typed YAML process that is a nil pointer or has a nil
  filename panics with a nil dereference; a map with a string under
  \<open>yamlFilename\<close> and a typed YAML process with a filename return with that
  \<open>yml_path\<close>; the nil interface and a value of any other type return with the
  empty \<open>yml_path\<close>.
\<close>
theorem flatten_by_process_shape:
  "(flattenRepository (Some bd) = Panics TypeAssertionFailed \<longleftrightarrow>
      (\<exists>pm. bd_Process bd = ProcessMap pm \<and> \<not> is_string (pm ''yamlFilename''))) \<and>
   (\<not> probe_safe (bd_Process bd) \<longrightarrow>
      (\<exists>q. flattenBuildDefinition d (Some bd) projectID = Panics q)) \<and>
   (dereferenceable bd \<longrightarrow>
      (bd_Process bd = ProcessMap m \<and> \<not> is_string (m ''yamlFilename'') \<longrightarrow>
         flattenBuildDefinition d (Some bd) projectID = Panics TypeAssertionFailed) \<and>
      (bd_Process bd = YamlProcess None \<longrightarrow>
         flattenBuildDefinition d (Some bd) projectID = Panics NilDereference) \<and>
      (bd_Process bd = YamlProcess (Some yp) \<and> YamlFilename yp = None \<longrightarrow>
         flattenBuildDefinition d (Some bd) projectID = Panics NilDereference) \<and>
      (bd_Process bd = ProcessMap m \<and> m ''yamlFilename'' = Some (GoString f) \<longrightarrow>
         (\<exists>d' r. flattenBuildDefinition d (Some bd) projectID = Returns (None, d') \<and>
                 repository d' = [r] \<and> r ''yml_path'' = Some (GoString f))) \<and>
      (bd_Process bd = YamlProcess (Some yp) \<and> YamlFilename yp = Some f \<longrightarrow>
         (\<exists>d' r. flattenBuildDefinition d (Some bd) projectID = Returns (None, d') \<and>
                 repository d' = [r] \<and> r ''yml_path'' = Some (GoString f))) \<and>
      (bd_Process bd = NoProcess \<or> bd_Process bd = OtherProcess \<longrightarrow>
         (\<exists>d' r. flattenBuildDefinition d (Some bd) projectID = Returns (None, d') \<and>
                 repository d' = [r] \<and> r ''yml_path'' = Some (GoString []))))"
proof -
  have a: "flattenRepository (Some bd) = Panics TypeAssertionFailed \<longleftrightarrow>
      (\<exists>pm. bd_Process bd = ProcessMap pm \<and> \<not> is_string (pm ''yamlFilename''))"
    by (rule flattenRepository_type_assertion)
  have b: "\<exists>q. flattenBuildDefinition d (Some bd) projectID = Panics q"
    if "\<not> probe_safe (bd_Process bd)"
  proof -
    from flattenRepository_unsafe [OF that] obtain q where
      "flattenRepository (Some bd) = Panics q" by blast
    from flatten_panics [OF this] show ?thesis .
  qed
  have c1: "flattenBuildDefinition d (Some bd) projectID = Panics TypeAssertionFailed"
    if "dereferenceable bd" "bd_Process bd = ProcessMap m" "\<not> is_string (m ''yamlFilename'')"
    using that by (intro flatten_with_panic) (simp_all add: assert_string_fail)
  have c2: "flattenBuildDefinition d (Some bd) projectID = Panics NilDereference"
    if "dereferenceable bd" "bd_Process bd = YamlProcess None"
    using that by (intro flatten_with_panic) simp_all
  have c3: "flattenBuildDefinition d (Some bd) projectID = Panics NilDereference"
    if "dereferenceable bd" "bd_Process bd = YamlProcess (Some yp)" "YamlFilename yp = None"
    using that by (intro flatten_with_panic) simp_all
  have c4: "\<exists>d' r. flattenBuildDefinition d (Some bd) projectID = Returns (None, d') \<and>
                 repository d' = [r] \<and> r ''yml_path'' = Some (GoString f)"
    if "dereferenceable bd" "bd_Process bd = ProcessMap m" "m ''yamlFilename'' = Some (GoString f)"
    using that by (intro flatten_with_filename) simp_all
  have c5: "\<exists>d' r. flattenBuildDefinition d (Some bd) projectID = Returns (None, d') \<and>
                 repository d' = [r] \<and> r ''yml_path'' = Some (GoString f)"
    if "dereferenceable bd" "bd_Process bd = YamlProcess (Some yp)" "YamlFilename yp = Some f"
    using that by (intro flatten_with_filename) simp_all
  have c6: "\<exists>d' r. flattenBuildDefinition d (Some bd) projectID = Returns (None, d') \<and>
                 repository d' = [r] \<and> r ''yml_path'' = Some (GoString [])"
    if "dereferenceable bd" "bd_Process bd = NoProcess \<or> bd_Process bd = OtherProcess"
    using that by (intro flatten_with_filename) auto
  from a b c1 c2 c3 c4 c5 c6 show ?thesis by blast
qed

theorem flatten_by_process_shape_witness:
  "dereferenceable sample_request \<and>
   \<not> is_string (Map.empty ''yamlFilename'') \<and>
   \<not> is_string ([''yamlFilename'' \<mapsto> GoInt 2] ''yamlFilename'') \<and>
   flattenRepository (Some (sample_request\<lparr>bd_Process := ProcessMap Map.empty\<rparr>)) =
     Panics TypeAssertionFailed \<and>
   flattenBuildDefinition blank_config
     (Some (sample_request\<lparr>bd_Process := ProcessMap Map.empty\<rparr>)) ''proj'' =
     Panics TypeAssertionFailed \<and>
   flattenBuildDefinition blank_config
     (Some (sample_request\<lparr>bd_Process := ProcessMap [''yamlFilename'' \<mapsto> GoInt 2]\<rparr>)) ''proj'' =
     Panics TypeAssertionFailed \<and>
   flattenBuildDefinition blank_config
     (Some (sample_request\<lparr>bd_Process := YamlProcess None\<rparr>)) ''proj'' =
     Panics NilDereference \<and>
   flattenBuildDefinition blank_config
     (Some (sample_request\<lparr>bd_Process := YamlProcess (Some \<lparr>YamlFilename = None\<rparr>)\<rparr>)) ''proj'' =
     Panics NilDereference \<and>
   (\<exists>d' r. flattenBuildDefinition blank_config
              (Some (sample_request\<lparr>bd_Process :=
                 ProcessMap [''yamlFilename'' \<mapsto> GoString ''a.yml'']\<rparr>)) ''proj'' =
              Returns (None, d') \<and>
            repository d' = [r] \<and> r ''yml_path'' = Some (GoString ''a.yml'')) \<and>
   (\<exists>d' r. flattenBuildDefinition blank_config
              (Some (sample_request\<lparr>bd_Process :=
                 YamlProcess (Some \<lparr>YamlFilename = Some ''ci.yml''\<rparr>)\<rparr>)) ''proj'' =
              Returns (None, d') \<and>
            repository d' = [r] \<and> r ''yml_path'' = Some (GoString ''ci.yml'')) \<and>
   (\<exists>d' r. flattenBuildDefinition blank_config
              (Some (sample_request\<lparr>bd_Process := OtherProcess\<rparr>)) ''proj'' =
              Returns (None, d') \<and>
            repository d' = [r] \<and> r ''yml_path'' = Some (GoString []))"
proof -
  have deref: "dereferenceable sample_request"
    "\<And>p. dereferenceable (sample_request\<lparr>bd_Process := p\<rparr>)"
    by (simp_all add: dereferenceable_def sample_request_def)
  have n1: "\<not> is_string (Map.empty ''yamlFilename'')" by simp
  have n2: "\<not> is_string ([''yamlFilename'' \<mapsto> GoInt 2] ''yamlFilename'')" by simp
  have i1: "flattenRepository (Some (sample_request\<lparr>bd_Process := ProcessMap Map.empty\<rparr>)) =
       Panics TypeAssertionFailed"
    "flattenBuildDefinition blank_config
       (Some (sample_request\<lparr>bd_Process := ProcessMap Map.empty\<rparr>)) ''proj'' =
       Panics TypeAssertionFailed"
    using flatten_by_process_shape
            [where bd = "sample_request\<lparr>bd_Process := ProcessMap Map.empty\<rparr>"
               and m = Map.empty and d = blank_config and projectID = "''proj''"]
          deref n1
    by auto
  have i2: "flattenBuildDefinition blank_config
       (Some (sample_request\<lparr>bd_Process := ProcessMap [''yamlFilename'' \<mapsto> GoInt 2]\<rparr>)) ''proj'' =
       Panics TypeAssertionFailed"
    using flatten_by_process_shape
            [where bd = "sample_request\<lparr>bd_Process := ProcessMap [''yamlFilename'' \<mapsto> GoInt 2]\<rparr>"
               and m = "[''yamlFilename'' \<mapsto> GoInt 2]"
               and d = blank_config and projectID = "''proj''"]
          deref n2
    by simp
  have i3: "flattenBuildDefinition blank_config
       (Some (sample_request\<lparr>bd_Process := YamlProcess None\<rparr>)) ''proj'' =
       Panics NilDereference"
    using flatten_by_process_shape
            [where bd = "sample_request\<lparr>bd_Process := YamlProcess None\<rparr>"
               and d = blank_config and projectID = "''proj''"]
          deref
    by simp
  have i4: "flattenBuildDefinition blank_config
       (Some (sample_request\<lparr>bd_Process := YamlProcess (Some \<lparr>YamlFilename = None\<rparr>)\<rparr>)) ''proj'' =
       Panics NilDereference"
    using flatten_by_process_shape
            [where bd = "sample_request\<lparr>bd_Process := YamlProcess (Some \<lparr>YamlFilename = None\<rparr>)\<rparr>"
               and yp = "\<lparr>YamlFilename = None\<rparr>"
               and d = blank_config and projectID = "''proj''"]
          deref
    by simp
  have i5: "\<exists>d' r. flattenBuildDefinition blank_config
              (Some (sample_request\<lparr>bd_Process :=
                 ProcessMap [''yamlFilename'' \<mapsto> GoString ''a.yml'']\<rparr>)) ''proj'' =
              Returns (None, d') \<and>
            repository d' = [r] \<and> r ''yml_path'' = Some (GoString ''a.yml'')"
    using flatten_by_process_shape
            [where bd = "sample_request\<lparr>bd_Process :=
                           ProcessMap [''yamlFilename'' \<mapsto> GoString ''a.yml'']\<rparr>"
               and m = "[''yamlFilename'' \<mapsto> GoString ''a.yml'']" and f = "''a.yml''"
               and d = blank_config and projectID = "''proj''"]
          deref
    by simp
  have i6: "\<exists>d' r. flattenBuildDefinition blank_config
              (Some (sample_request\<lparr>bd_Process :=
                 YamlProcess (Some \<lparr>YamlFilename = Some ''ci.yml''\<rparr>)\<rparr>)) ''proj'' =
              Returns (None, d') \<and>
            repository d' = [r] \<and> r ''yml_path'' = Some (GoString ''ci.yml'')"
    using flatten_by_process_shape
            [where bd = "sample_request\<lparr>bd_Process :=
                           YamlProcess (Some \<lparr>YamlFilename = Some ''ci.yml''\<rparr>)\<rparr>"
               and yp = "\<lparr>YamlFilename = Some ''ci.yml''\<rparr>" and f = "''ci.yml''"
               and d = blank_config and projectID = "''proj''"]
          deref
    by simp
  have i7: "\<exists>d' r. flattenBuildDefinition blank_config
              (Some (sample_request\<lparr>bd_Process := OtherProcess\<rparr>)) ''proj'' =
              Returns (None, d') \<and>
            repository d' = [r] \<and> r ''yml_path'' = Some (GoString [])"
    using flatten_by_process_shape
            [where bd = "sample_request\<lparr>bd_Process := OtherProcess\<rparr>"
               and d = blank_config and projectID = "''proj''"]
          deref
    by simp
  from deref(1) n1 n2 i1 i2 i3 i4 i5 i6 i7 show ?thesis by blast
qed

text \<open>
  Claim C5. A server object whose process is a map with the string \<open>f\<close> under
  \<open>yamlFilename\<close> and the same object with a typed YAML process of filename \<open>f\<close>
  flatten to the same outcome; when the pointers Flatten dereferences are set,
  that outcome is a resource data whose repository entry has \<open>yml_path = f\<close>.
\<close>
theorem flatten_process_shapes_agree:
  assumes "m ''yamlFilename'' = Some (GoString f)" and "YamlFilename yp = Some f"
  shows "flattenBuildDefinition d (Some (bd\<lparr>bd_Process := ProcessMap m\<rparr>)) projectID =
         flattenBuildDefinition d (Some (bd\<lparr>bd_Process := YamlProcess (Some yp)\<rparr>)) projectID \<and>
         (dereferenceable bd \<longrightarrow>
            (\<exists>d' r. flattenBuildDefinition d (Some (bd\<lparr>bd_Process := ProcessMap m\<rparr>)) projectID =
                      Returns (None, d') \<and>
                    repository d' = [r] \<and> r ''yml_path'' = Some (GoString f)))"
proof -
  let ?a = "bd\<lparr>bd_Process := ProcessMap m\<rparr>"
  have same: "flattenBuildDefinition d (Some ?a) projectID =
        flattenBuildDefinition d (Some (bd\<lparr>bd_Process := YamlProcess (Some yp)\<rparr>)) projectID"
    using flattenRepository_same [of m f yp bd] assms
    by (simp add: flattenBuildDefinition_def flattenVariableGroups_process
          Set_repository_def Set_variable_groups_def)
  have "\<exists>d' r. flattenBuildDefinition d (Some ?a) projectID = Returns (None, d') \<and>
               repository d' = [r] \<and> r ''yml_path'' = Some (GoString f)"
    if "dereferenceable bd"
  proof -
    from that have da: "dereferenceable ?a"
      by (simp add: dereferenceable_def)
    from that obtain repo n t b props where
      "bd_Repository ?a = Some repo" "repo_Name repo = Some n" "repo_Type repo = Some t"
      "repo_DefaultBranch repo = Some b" "repo_Properties repo = Some props"
      by (auto simp: dereferenceable_def split: option.splits)
    from flattenRepository_returns [OF this] assms(1)
    obtain r where r: "flattenRepository (Some ?a) = Returns [r]"
      "r ''yml_path'' = Some (GoString f)"
      by simp
    from flatten_returns [OF da r(1), of d projectID] r(2) show ?thesis by simp
  qed
  with same show ?thesis by blast
qed

theorem flatten_process_shapes_agree_witness:
  "[''yamlFilename'' \<mapsto> GoString ''azure-pipelines.yml''] ''yamlFilename'' =
     Some (GoString ''azure-pipelines.yml'') \<and>
   YamlFilename \<lparr>YamlFilename = Some ''azure-pipelines.yml''\<rparr> = Some ''azure-pipelines.yml'' \<and>
   dereferenceable sample_request \<and>
   flattenBuildDefinition blank_config
     (Some (sample_request\<lparr>bd_Process :=
        ProcessMap [''yamlFilename'' \<mapsto> GoString ''azure-pipelines.yml'']\<rparr>)) ''proj'' =
   flattenBuildDefinition blank_config
     (Some (sample_request\<lparr>bd_Process :=
        YamlProcess (Some \<lparr>YamlFilename = Some ''azure-pipelines.yml''\<rparr>)\<rparr>)) ''proj'' \<and>
   (\<exists>d' r. flattenBuildDefinition blank_config
              (Some (sample_request\<lparr>bd_Process :=
                 ProcessMap [''yamlFilename'' \<mapsto> GoString ''azure-pipelines.yml'']\<rparr>)) ''proj'' =
              Returns (None, d') \<and>
            repository d' = [r] \<and> r ''yml_path'' = Some (GoString ''azure-pipelines.yml''))"
proof -
  have h1: "[''yamlFilename'' \<mapsto> GoString ''azure-pipelines.yml''] ''yamlFilename'' =
     Some (GoString ''azure-pipelines.yml'')"
    by simp
  have h2: "YamlFilename \<lparr>YamlFilename = Some ''azure-pipelines.yml''\<rparr> =
     Some ''azure-pipelines.yml''"
    by simp
  have h3: "dereferenceable sample_request"
    by (simp add: dereferenceable_def sample_request_def)
  from flatten_process_shapes_agree
         [where m = "[''yamlFilename'' \<mapsto> GoString ''azure-pipelines.yml'']"
            and f = "''azure-pipelines.yml''"
            and yp = "\<lparr>YamlFilename = Some ''azure-pipelines.yml''\<rparr>"
            and d = blank_config and bd = sample_request and projectID = "''proj''",
          OF h1 h2] h1 h2 h3
  show ?thesis by blast
qed

text \<open>
  Claim C8. The revision member never decides whether Flatten returns: setting
  it to \<open>rv\<close> changes the outcome only in the stored revision, which is \<open>0\<close> for
  nil and the value otherwise. When the pointers Flatten dereferences are set,
  Flatten returns nil with that revision.
\<close>
theorem flatten_revision:
  "flattenBuildDefinition d (Some (bd\<lparr>bd_Revision := rv\<rparr>)) projectID =
     (case flattenBuildDefinition d (Some bd) projectID of
        Panics q \<Rightarrow> Panics q
      | Returns (err, d') \<Rightarrow>
          Returns (err, d'\<lparr>revision := (case rv of None \<Rightarrow> 0 | Some r \<Rightarrow> r)\<rparr>)) \<and>
   (dereferenceable bd \<and> probe_safe (bd_Process bd) \<longrightarrow>
      (\<exists>d'. flattenBuildDefinition d (Some bd) projectID = Returns (None, d') \<and>
            revision d' = (case bd_Revision bd of None \<Rightarrow> 0 | Some r \<Rightarrow> r)))"
proof -
  have "\<exists>d'. flattenBuildDefinition d (Some bd) projectID = Returns (None, d') \<and>
             revision d' = (case bd_Revision bd of None \<Rightarrow> 0 | Some r \<Rightarrow> r)"
    if "dereferenceable bd" and "probe_safe (bd_Process bd)"
  proof -
    from probe_safe_returns [OF that] obtain r where
      "flattenRepository (Some bd) = Returns [r]" by blast
    from flatten_returns [OF that(1) this] show ?thesis by simp
  qed
  with flatten_ignores_revision [where d = d and bd = bd and rv = rv and projectID = projectID]
  show ?thesis by blast
qed

theorem flatten_revision_witness:
  "dereferenceable (sample_request\<lparr>bd_Revision := None\<rparr>) \<and>
   probe_safe (bd_Process (sample_request\<lparr>bd_Revision := None\<rparr>)) \<and>
   dereferenceable sample_request \<and> probe_safe (bd_Process sample_request) \<and>
   (\<exists>d'. flattenBuildDefinition sample_config (Some (sample_request\<lparr>bd_Revision := None\<rparr>)) ''proj'' =
            Returns (None, d') \<and> revision d' = 0) \<and>
   (\<exists>d'. flattenBuildDefinition blank_config (Some sample_request) ''proj'' =
            Returns (None, d') \<and> revision d' = 3)"
proof -
  have h1: "dereferenceable (sample_request\<lparr>bd_Revision := None\<rparr>)"
    by (simp add: dereferenceable_def sample_request_def)
  have h2: "probe_safe (bd_Process (sample_request\<lparr>bd_Revision := None\<rparr>))"
    by (simp add: sample_request_def)
  have h3: "dereferenceable sample_request"
    by (simp add: dereferenceable_def sample_request_def)
  have h4: "probe_safe (bd_Process sample_request)"
    by (simp add: sample_request_def)
  have r: "bd_Revision sample_request = Some 3"
    by (simp add: sample_request_def)
  from flatten_revision
         [where d = sample_config and bd = "sample_request\<lparr>bd_Revision := None\<rparr>"
            and rv = None and projectID = "''proj''"]
       flatten_revision
         [where d = blank_config and bd = sample_request and rv = None and projectID = "''proj''"]
       h1 h2 h3 h4
  show ?thesis by (simp add: r)
qed

section \<open>The lifecycle operations\<close>

text \<open>
  Claim C6. Delete on a resource data with the empty identifier returns nil at
  once: the resource data and the remote service are unchanged and no call is
  added to the log.
\<close>
theorem delete_without_identifier:
  assumes "rd_Id d = []"
  shows "resourceBuildDefinitionDelete clients d w = Returns (None, d, w)"
  using assms by (simp add: resourceBuildDefinitionDelete_def)

theorem delete_without_identifier_witness:
  "rd_Id blank_config = [] \<and>
   resourceBuildDefinitionDelete failing_clients blank_config idle_remote =
     Returns (None, blank_config, idle_remote)"
proof -
  have h: "rd_Id blank_config = []"
    by (simp add: blank_config_def)
  from delete_without_identifier [OF h, of failing_clients idle_remote] h
  show ?thesis by simp
qed

text \<open>
  Claim C3, as stated, fails on Read: when the remote fetch fails with \<open>boom\<close>,
  Read returns exactly \<open>boom\<close>, not a longer message that ends with it.
\<close>
theorem read_failure_not_wrapped:
  "returned_error (resourceBuildDefinitionRead failing_clients sample_config idle_remote) =
     Some ''boom'' \<and>
   \<not> reports_with_context ''boom''
       (resourceBuildDefinitionRead failing_clients sample_config idle_remote)"
  by (simp add: read_fails_with_boom reports_with_context_def adds_context_def)

text \<open>
  Claim C3, amended. A failure of the remote call ends the lifecycle operation at
  once and reaches the caller, with the resource data unchanged and that one call
  issued: Create returns it behind the prefix
  \<open>Error creating resource Build Definition: \<close>; Read, Update and Delete
  return the remote error itself, with no context added.
\<close>
theorem remote_failure_surfaced:
  "(expandBuildDefinition d = Returns (request, createProject, None) \<and>
    CreateDefinition clients request createProject (server w) = ((created, Some cause), s')
    \<longrightarrow> resourceBuildDefinitionCreate clients d w =
          Returns (Some (''Error creating resource Build Definition: '' @ cause), d,
                   \<lparr>server = s', calls = calls w @ [CreateDefinitionCall request createProject]\<rparr>)) \<and>
   (ParseProjectIDAndResourceID clients d = (readProject, readID, None) \<and>
    GetDefinition clients readProject readID (server w) = ((fetched, Some cause), s')
    \<longrightarrow> resourceBuildDefinitionRead clients d w =
          Returns (Some cause, d,
                   \<lparr>server = s', calls = calls w @ [GetDefinitionCall readProject readID]\<rparr>)) \<and>
   (expandBuildDefinition d = Returns (Some bd, updateProject, None) \<and>
    UpdateDefinition clients (Some bd) updateProject (bd_Id bd) (server w) =
      ((updated, Some cause), s')
    \<longrightarrow> resourceBuildDefinitionUpdate clients d w =
          Returns (Some cause, d,
                   \<lparr>server = s',
                    calls = calls w @ [UpdateDefinitionCall (Some bd) updateProject (bd_Id bd)]\<rparr>)) \<and>
   (rd_Id d \<noteq> [] \<and>
    ParseProjectIDAndResourceID clients d = (deleteProject, deleteID, None) \<and>
    DeleteDefinition clients deleteProject deleteID (server w) = (Some cause, s')
    \<longrightarrow> resourceBuildDefinitionDelete clients d w =
          Returns (Some cause, d,
                   \<lparr>server = s', calls = calls w @ [DeleteDefinitionCall deleteProject deleteID]\<rparr>))"
  by (simp add: resourceBuildDefinitionCreate_def resourceBuildDefinitionRead_def
        resourceBuildDefinitionUpdate_def resourceBuildDefinitionDelete_def
        createBuildDefinition_def issue_def)

theorem remote_failure_surfaced_witness:
  "expandBuildDefinition sample_config = Returns (Some sample_request, ''proj'', None) \<and>
   CreateDefinition failing_clients (Some sample_request) ''proj'' (server idle_remote) =
     ((None, Some ''boom''), ()) \<and>
   ParseProjectIDAndResourceID failing_clients sample_config = (''proj'', 7, None) \<and>
   GetDefinition failing_clients ''proj'' 7 (server idle_remote) = ((None, Some ''boom''), ()) \<and>
   UpdateDefinition failing_clients (Some sample_request) ''proj'' (bd_Id sample_request)
     (server idle_remote) = ((None, Some ''boom''), ()) \<and>
   rd_Id sample_config \<noteq> [] \<and>
   DeleteDefinition failing_clients ''proj'' 7 (server idle_remote) = (Some ''boom'', ()) \<and>
   resourceBuildDefinitionCreate failing_clients sample_config idle_remote =
     Returns (Some ''Error creating resource Build Definition: boom'', sample_config,
              \<lparr>server = (), calls = [CreateDefinitionCall (Some sample_request) ''proj'']\<rparr>) \<and>
   resourceBuildDefinitionRead failing_clients sample_config idle_remote =
     Returns (Some ''boom'', sample_config,
              \<lparr>server = (), calls = [GetDefinitionCall ''proj'' 7]\<rparr>) \<and>
   resourceBuildDefinitionUpdate failing_clients sample_config idle_remote =
     Returns (Some ''boom'', sample_config,
              \<lparr>server = (), calls = [UpdateDefinitionCall (Some sample_request) ''proj'' (Some 7)]\<rparr>) \<and>
   resourceBuildDefinitionDelete failing_clients sample_config idle_remote =
     Returns (Some ''boom'', sample_config,
              \<lparr>server = (), calls = [DeleteDefinitionCall ''proj'' 7]\<rparr>)"
proof -
  have h1: "expandBuildDefinition sample_config = Returns (Some sample_request, ''proj'', None)"
    by (rule expand_sample_config)
  have h2: "CreateDefinition failing_clients (Some sample_request) ''proj'' (server idle_remote) =
     ((None, Some ''boom''), ())"
    by (simp add: failing_clients_def)
  have h3: "ParseProjectIDAndResourceID failing_clients sample_config = (''proj'', 7, None)"
    by (simp add: failing_clients_def sample_parse_sample_config)
  have h4: "GetDefinition failing_clients ''proj'' 7 (server idle_remote) =
     ((None, Some ''boom''), ())"
    by (simp add: failing_clients_def)
  have h5: "UpdateDefinition failing_clients (Some sample_request) ''proj'' (bd_Id sample_request)
     (server idle_remote) = ((None, Some ''boom''), ())"
    by (simp add: failing_clients_def)
  have h6: "rd_Id sample_config \<noteq> []"
    by (simp add: sample_config_def)
  have h7: "DeleteDefinition failing_clients ''proj'' 7 (server idle_remote) = (Some ''boom'', ())"
    by (simp add: failing_clients_def)
  have i: "bd_Id sample_request = Some 7" "calls idle_remote = []"
    by (simp_all add: sample_request_def idle_remote_def)
  from remote_failure_surfaced
         [where d = sample_config and clients = failing_clients and w = idle_remote
            and request = "Some sample_request" and createProject = "''proj''"
            and created = None and cause = "''boom''" and s' = "()"
            and readProject = "''proj''" and readID = 7 and fetched = None
            and bd = sample_request and updateProject = "''proj''" and updated = None
            and deleteProject = "''proj''" and deleteID = 7]
       h1 h2 h3 h4 h5 h6 h7
  show ?thesis by (simp add: i)
qed

end
